theory Spec2Isabelle
  imports Main "HOL-Library.Sublist"
begin

section \<open>Evaluation listing of openml/evaluations/functions.py\<close>

text \<open>
  The module builds a query path, fetches an XML document, reads it with xmltodict and
  projects the evaluation elements into objects, plain mappings or a table; a second
  operation joins the table with hyperparameter settings fetched per batch of setups.

  Python names starting with an underscore are not Isabelle identifiers:
  \<^verbatim>\<open>_list_evaluations\<close> is \<open>u_list_evaluations\<close> and \<^verbatim>\<open>__list_evaluations\<close> is
  \<open>uu_list_evaluations\<close>. The fields \<^verbatim>\<open>function\<close>, \<^verbatim>\<open>value\<close>, \<^verbatim>\<open>values\<close>
  of an evaluation carry the prefix \<open>e_\<close>, since the bare words are Isabelle keywords.
\<close>

subsection \<open>Exceptions and results\<close>

text \<open>
  Every exception the module can raise is a value. \<open>ValueError\<close> carries its message,
  \<open>KeyError\<close> the missing key.
\<close>

datatype error =
    ValueError string
  | KeyError string
  | TypeError
  | IndexError
  | AssertionError

definition bnd :: "error + 'a \<Rightarrow> ('a \<Rightarrow> error + 'b) \<Rightarrow> error + 'b" where
  "bnd m f = (case m of Inl e \<Rightarrow> Inl e | Inr x \<Rightarrow> f x)"

subsection \<open>What xmltodict.parse returns\<close>

text \<open>
  An element without content is \<^verbatim>\<open>None\<close>, an element with text only is a string, an
  element with children is an ordered mapping from tag to value, and a tag that repeats (or
  is named in \<^verbatim>\<open>force_list\<close>) holds a list. The document itself is a mapping from the
  root tag. A list is made when an element is met, so a list that xmltodict has built is
  never empty: \<open>built\<close> says so of a parsed value and of all values inside it.
\<close>

datatype xml =
    XNone
  | XText string
  | XDict "(string \<times> xml) list"
  | XList "xml list"

type_synonym xdict = "(string \<times> xml) list"

fun built :: "xml \<Rightarrow> bool"
  and built_items :: "(string \<times> xml) list \<Rightarrow> bool"
  and built_list :: "xml list \<Rightarrow> bool" where
  "built XNone = True"
| "built (XText s) = True"
| "built (XDict d) = built_items d"
| "built (XList xs) = (xs \<noteq> [] \<and> built_list xs)"
| "built_items [] = True"
| "built_items ((k, v) # kvs) = (built v \<and> built_items kvs)"
| "built_list [] = True"
| "built_list (x # xs) = (built x \<and> built_list xs)"

definition has_key :: "xdict \<Rightarrow> string \<Rightarrow> bool" where
  "has_key d k = (map_of d k \<noteq> None)"

text \<open>\<^verbatim>\<open>d[k]\<close> on a mapping raises KeyError for a missing key.\<close>

definition getitem :: "xdict \<Rightarrow> string \<Rightarrow> error + xml" where
  "getitem d k = (case map_of d k of None \<Rightarrow> Inl (KeyError k) | Some v \<Rightarrow> Inr v)"

text \<open>
  \<^verbatim>\<open>x[k]\<close> with a string key on a parsed value: only a mapping can be read that way;
  \<^verbatim>\<open>None\<close>, a string and a list raise TypeError.
\<close>

fun subscript :: "xml \<Rightarrow> string \<Rightarrow> error + xml" where
  "subscript (XDict d) k = getitem d k"
| "subscript XNone k = Inl TypeError"
| "subscript (XText s) k = Inl TypeError"
| "subscript (XList xs) k = Inl TypeError"

subsection \<open>Library functions\<close>

text \<open>
  \<^verbatim>\<open>int\<close>, \<^verbatim>\<open>float\<close>, \<^verbatim>\<open>json.loads\<close> on a string and \<^verbatim>\<open>str\<close> on a parsed
  document belong to Python, not to this module. They are parameters: \<open>'f\<close> is the type
  of floats, \<open>'j\<close> the type of what \<^verbatim>\<open>json.loads\<close> decodes from the values field,
  the per-fold array of values (\<^verbatim>\<open>json.loads("null")\<close> is \<^verbatim>\<open>None\<close>, here
  \<open>Inr None\<close>). Each returns the
  exception it raises on a string it cannot read. \<open>py_nan\<close> is the float
  \<^verbatim>\<open>nan\<close>, with which pandas marks a missing number.
\<close>

record ('f, 'j) pylib =
  py_int :: "string \<Rightarrow> error + int"
  py_float :: "string \<Rightarrow> error + 'f"
  json_loads :: "string \<Rightarrow> error + 'j option"
  py_str :: "xdict \<Rightarrow> string"
  py_nan :: "'f"

text \<open>Applied to a parsed value that is not a string, all three raise TypeError.\<close>

fun to_int :: "('f, 'j) pylib \<Rightarrow> xml \<Rightarrow> error + int" where
  "to_int L (XText s) = py_int L s"
| "to_int L XNone = Inl TypeError"
| "to_int L (XDict d) = Inl TypeError"
| "to_int L (XList xs) = Inl TypeError"

fun to_float :: "('f, 'j) pylib \<Rightarrow> xml \<Rightarrow> error + 'f" where
  "to_float L (XText s) = py_float L s"
| "to_float L XNone = Inl TypeError"
| "to_float L (XDict d) = Inl TypeError"
| "to_float L (XList xs) = Inl TypeError"

fun loads :: "('f, 'j) pylib \<Rightarrow> xml \<Rightarrow> error + 'j option" where
  "loads L (XText s) = json_loads L s"
| "loads L XNone = Inl TypeError"
| "loads L (XDict d) = Inl TypeError"
| "loads L (XList xs) = Inl TypeError"

subsection \<open>Evaluation records\<close>

text \<open>
  The twelve fields of an evaluation, in the order of the source. The four identifiers go
  through \<^verbatim>\<open>int\<close>; the names, the data identifier, the function and the upload time are
  kept as parsed. \<open>e_value\<close> and \<open>e_values\<close> are \<open>None\<close> for Python's
  \<^verbatim>\<open>None\<close>; \<open>array_data\<close> is a parsed value, \<open>XNone\<close> for \<^verbatim>\<open>None\<close>.
\<close>

record ('f, 'j) evaluation =
  run_id :: int
  task_id :: int
  setup_id :: int
  flow_id :: int
  flow_name :: xml
  data_id :: xml
  data_name :: xml
  e_function :: xml
  upload_time :: xml
  e_value :: "'f option"
  e_values :: "'j option"
  array_data :: xml

text \<open>
  With \<^verbatim>\<open>output_format == 'object'\<close> the fields are passed to the constructor
  \<^verbatim>\<open>OpenMLEvaluation\<close>, otherwise they make a plain mapping.
\<close>

datatype ('f, 'j) entry =
    OpenMLEvaluation "('f, 'j) evaluation"
  | RowDict "('f, 'j) evaluation"

fun fields_of :: "('f, 'j) entry \<Rightarrow> ('f, 'j) evaluation" where
  "fields_of (OpenMLEvaluation r) = r"
| "fields_of (RowDict r) = r"

subsection \<open>The ordered mapping\<close>

text \<open>
  \<^verbatim>\<open>collections.OrderedDict\<close>: an association list with distinct keys in insertion
  order. \<^verbatim>\<open>evals[k] = v\<close> replaces the value of a key that is present, which keeps its
  position, and appends a new key at the end.
\<close>

fun od_set :: "'k \<Rightarrow> 'v \<Rightarrow> ('k \<times> 'v) list \<Rightarrow> ('k \<times> 'v) list" where
  "od_set k v [] = [(k, v)]"
| "od_set k v ((k', v') # kvs) =
     (if k' = k then (k, v) # kvs else (k', v') # od_set k v kvs)"

subsection \<open>Decoding one evaluation element\<close>

text \<open>
  The body of the loop of \<^verbatim>\<open>__list_evaluations\<close>, lines 176 to 211, in the order in
  which Python evaluates it: the run identifier, the three optional fields, then the fields
  of the record. The element is read with string keys, so an element that is not a mapping
  raises TypeError at line 176.
\<close>

definition opt_value :: "('f, 'j) pylib \<Rightarrow> xdict \<Rightarrow> error + 'f option" where
  "opt_value L d =
     (if has_key d ''oml:value''
      then bnd (getitem d ''oml:value'') (\<lambda>x. bnd (to_float L x) (\<lambda>v. Inr (Some v)))
      else Inr None)"

definition opt_values :: "('f, 'j) pylib \<Rightarrow> xdict \<Rightarrow> error + 'j option" where
  "opt_values L d =
     (if has_key d ''oml:values''
      then bnd (getitem d ''oml:values'') (loads L)
      else Inr None)"

definition opt_array_data :: "xdict \<Rightarrow> error + xml" where
  "opt_array_data d =
     (if has_key d ''oml:array_data'' then getitem d ''oml:array_data'' else Inr XNone)"

definition int_field :: "('f, 'j) pylib \<Rightarrow> xdict \<Rightarrow> string \<Rightarrow> error + int" where
  "int_field L d k = bnd (getitem d k) (to_int L)"

definition build :: "('f, 'j) pylib \<Rightarrow> xdict \<Rightarrow> 'f option \<Rightarrow> 'j option \<Rightarrow> xml
    \<Rightarrow> error + ('f, 'j) evaluation" where
  "build L d v vs ad =
     bnd (int_field L d ''oml:run_id'') (\<lambda>r.
     bnd (int_field L d ''oml:task_id'') (\<lambda>t.
     bnd (int_field L d ''oml:setup_id'') (\<lambda>s.
     bnd (int_field L d ''oml:flow_id'') (\<lambda>f.
     bnd (getitem d ''oml:flow_name'') (\<lambda>fn.
     bnd (getitem d ''oml:data_id'') (\<lambda>di.
     bnd (getitem d ''oml:data_name'') (\<lambda>dn.
     bnd (getitem d ''oml:function'') (\<lambda>fu.
     bnd (getitem d ''oml:upload_time'') (\<lambda>ut.
       Inr \<lparr>run_id = r, task_id = t, setup_id = s, flow_id = f, flow_name = fn,
            data_id = di, data_name = dn, e_function = fu, upload_time = ut,
            e_value = v, e_values = vs, array_data = ad\<rparr>)))))))))"

fun decode :: "('f, 'j) pylib \<Rightarrow> string \<Rightarrow> xml \<Rightarrow> error + int \<times> ('f, 'j) entry" where
  "decode L output_format (XDict d) =
     bnd (int_field L d ''oml:run_id'') (\<lambda>run_id.
     bnd (opt_value L d) (\<lambda>v.
     bnd (opt_values L d) (\<lambda>vs.
     bnd (opt_array_data d) (\<lambda>ad.
     bnd (build L d v vs ad) (\<lambda>r.
       Inr (run_id, if output_format = ''object'' then OpenMLEvaluation r else RowDict r))))))"
| "decode L output_format XNone = Inl TypeError"
| "decode L output_format (XText s) = Inl TypeError"
| "decode L output_format (XList xs) = Inl TypeError"

text \<open>
  The loop over the evaluation elements, in response order. The first exception ends it.
\<close>

fun eval_loop :: "('f, 'j) pylib \<Rightarrow> string \<Rightarrow> xml list \<Rightarrow> (int \<times> ('f, 'j) entry) list
    \<Rightarrow> error + (int \<times> ('f, 'j) entry) list" where
  "eval_loop L output_format [] evals = Inr evals"
| "eval_loop L output_format (e # es) evals =
     bnd (decode L output_format e) (\<lambda>(run_id, x).
       eval_loop L output_format es (od_set run_id x evals))"

subsection \<open>The parser\<close>

text \<open>
  What \<^verbatim>\<open>__list_evaluations\<close> returns: the ordered mapping, or the table built from its
  values. \<^verbatim>\<open>DataFrame.from_records(rows, columns=rows[0].keys())\<close> reads the first row,
  which raises IndexError on an empty list.

  pandas infers the type of each column. The identifiers are integers in every row and
  stay so; the names, the array data and the decoded per-fold arrays make columns of
  objects, in which \<^verbatim>\<open>None\<close> stays \<^verbatim>\<open>None\<close>. The column \<^verbatim>\<open>value\<close> holds
  floats and \<^verbatim>\<open>None\<close>: when at least one row has a float it becomes a column of floats
  and every \<^verbatim>\<open>None\<close> in it becomes \<^verbatim>\<open>nan\<close>; when no row has one it stays a column
  of \<^verbatim>\<open>None\<close>.
\<close>

datatype ('f, 'j) listing =
    Mapping "(int \<times> ('f, 'j) entry) list"
  | Frame "('f, 'j) evaluation list"

definition coerce_value :: "'f \<Rightarrow> ('f, 'j) evaluation list \<Rightarrow> ('f, 'j) evaluation list" where
  "coerce_value nan rows =
     (if list_ex (\<lambda>r. e_value r \<noteq> None) rows
      then map (\<lambda>r. case e_value r of None \<Rightarrow> r\<lparr>e_value := Some nan\<rparr> | Some v \<Rightarrow> r) rows
      else rows)"

definition from_records :: "('f, 'j) pylib \<Rightarrow> ('f, 'j) entry list \<Rightarrow> error + ('f, 'j) listing" where
  "from_records L rows =
     (case rows of
        [] \<Rightarrow> Inl IndexError
      | r # rs \<Rightarrow> Inr (Frame (coerce_value (py_nan L) (map fields_of rows))))"

definition parse_evaluations :: "('f, 'j) pylib \<Rightarrow> string \<Rightarrow> xdict \<Rightarrow> error + ('f, 'j) listing" where
  "parse_evaluations L output_format evals_dict =
     (if \<not> has_key evals_dict ''oml:evaluations''
      then Inl (ValueError
             (''Error in return XML, does not contain \"oml:evaluations\": '' @ py_str L evals_dict))
      else
        bnd (getitem evals_dict ''oml:evaluations'') (\<lambda>c.
        bnd (subscript c ''oml:evaluation'') (\<lambda>l.
          case l of
            XList es \<Rightarrow>
              bnd (eval_loop L output_format es []) (\<lambda>evals.
                if output_format = ''dataframe'' then from_records L (map snd evals)
                else Inr (Mapping evals))
          | _ \<Rightarrow> Inl AssertionError)))"

text \<open>
  The network: the calls made so far are the state. \<open>api_calls\<close> are the paths fetched
  with \<^verbatim>\<open>_perform_api_call\<close>, \<open>setup_fetches\<close> the batches passed to
  \<^verbatim>\<open>openml.setups.list_setups\<close>. The server is a parameter: \<open>srv p\<close> is the document
  answered for the path \<open>p\<close>, as xmltodict reads it.
\<close>

record net =
  api_calls :: "string list"
  setup_fetches :: "int list list"

definition uu_list_evaluations :: "('f, 'j) pylib \<Rightarrow> (string \<Rightarrow> xdict) \<Rightarrow> string \<Rightarrow> string \<Rightarrow> net
    \<Rightarrow> (error + ('f, 'j) listing) \<times> net" where
  "uu_list_evaluations L srv api_call output_format st =
     (parse_evaluations L output_format (srv api_call),
      st\<lparr>api_calls := api_calls st @ [api_call]\<rparr>)"

subsection \<open>The query builder\<close>

text \<open>
  \<^verbatim>\<open>str\<close> of a Python integer: decimal digits, with a minus sign below zero.
\<close>

fun str_nat :: "nat \<Rightarrow> string" where
  "str_nat n = (if n < 10 then [''0123456789'' ! n]
                else str_nat (n div 10) @ [''0123456789'' ! (n mod 10)])"

declare str_nat.simps [simp del]

definition str_int :: "int \<Rightarrow> string" where
  "str_int i = (if i < 0 then ''-'' @ str_nat (nat (- i)) else str_nat (nat i))"

text \<open>\<^verbatim>\<open>sep.join(xs)\<close>.\<close>

fun join :: "string \<Rightarrow> string list \<Rightarrow> string" where
  "join sep [] = []"
| "join sep [x] = x"
| "join sep (x # y # ys) = x @ sep @ join sep (y # ys)"

text \<open>
  The keyword arguments that \<^verbatim>\<open>_list_evaluations\<close> collects in \<^verbatim>\<open>kwargs\<close> (tag, limit,
  offset, per_fold) are integers, strings or \<^verbatim>\<open>None\<close>; \<^verbatim>\<open>%s\<close> renders them with
  \<^verbatim>\<open>str\<close>. A Python mapping keeps its keys in insertion order.
\<close>

datatype kwval = KInt int | KStr string | KNone

fun kw_str :: "kwval \<Rightarrow> string" where
  "kw_str (KInt i) = str_int i"
| "kw_str (KStr s) = s"
| "kw_str KNone = ''None''"

text \<open>
  The arguments of \<^verbatim>\<open>_list_evaluations\<close> other than \<^verbatim>\<open>output_format\<close>, with the
  prefix \<open>a_\<close>. The identifier lists hold integers, on which \<^verbatim>\<open>int(i)\<close> is the
  identity.
\<close>

record call_args =
  a_function :: string
  a_id :: "int list option"
  a_task :: "int list option"
  a_setup :: "int list option"
  a_flow :: "int list option"
  a_uploader :: "int list option"
  a_sort_order :: "string option"
  a_kwargs :: "(string \<times> kwval) list"

text \<open>One \<^verbatim>\<open>api_call += ...\<close> per line of the source, lines 142 to 157.\<close>

definition add_kwargs :: "(string \<times> kwval) list \<Rightarrow> string \<Rightarrow> string" where
  "add_kwargs kwargs api_call =
     foldl (\<lambda>acc (operator, v). acc @ ''/'' @ operator @ ''/'' @ kw_str v) api_call kwargs"

definition add_ids :: "string \<Rightarrow> int list option \<Rightarrow> string \<Rightarrow> string" where
  "add_ids name ids api_call =
     (case ids of None \<Rightarrow> api_call
      | Some xs \<Rightarrow> api_call @ ''/'' @ name @ ''/'' @ join '','' (map str_int xs))"

definition add_sort_order :: "string option \<Rightarrow> string \<Rightarrow> string" where
  "add_sort_order sort_order api_call =
     (case sort_order of None \<Rightarrow> api_call | Some s \<Rightarrow> api_call @ ''/sort_order/'' @ s)"

definition build_api_call :: "call_args \<Rightarrow> string" where
  "build_api_call a =
     (let api_call = ''evaluation/list/function/'' @ a_function a;
          api_call = add_kwargs (a_kwargs a) api_call;
          api_call = add_ids ''run'' (a_id a) api_call;
          api_call = add_ids ''task'' (a_task a) api_call;
          api_call = add_ids ''setup'' (a_setup a) api_call;
          api_call = add_ids ''flow'' (a_flow a) api_call;
          api_call = add_ids ''uploader'' (a_uploader a) api_call;
          api_call = add_sort_order (a_sort_order a) api_call
      in api_call)"

definition u_list_evaluations :: "('f, 'j) pylib \<Rightarrow> (string \<Rightarrow> xdict) \<Rightarrow> call_args \<Rightarrow> string \<Rightarrow> net
    \<Rightarrow> (error + ('f, 'j) listing) \<times> net" where
  "u_list_evaluations L srv a output_format st =
     uu_list_evaluations L srv (build_api_call a) output_format st"

text \<open>
  The shape of the path in the words of the specification: the fixed prefix and the metric,
  then one segment \<^verbatim>\<open>/<filter-name>/<comma-joined-values>\<close> per filter that is given, the
  keyword filters first, then run, task, setup, flow, uploader and sort_order.
\<close>

definition segment :: "string \<times> string \<Rightarrow> string" where
  "segment nv = ''/'' @ fst nv @ ''/'' @ snd nv"

definition id_segments :: "string \<Rightarrow> int list option \<Rightarrow> (string \<times> string) list" where
  "id_segments name ids =
     (case ids of None \<Rightarrow> [] | Some xs \<Rightarrow> [(name, join '','' (map str_int xs))])"

definition spec_segments :: "call_args \<Rightarrow> (string \<times> string) list" where
  "spec_segments a =
     map (\<lambda>(operator, v). (operator, kw_str v)) (a_kwargs a)
     @ id_segments ''run'' (a_id a)
     @ id_segments ''task'' (a_task a)
     @ id_segments ''setup'' (a_setup a)
     @ id_segments ''flow'' (a_flow a)
     @ id_segments ''uploader'' (a_uploader a)
     @ (case a_sort_order a of None \<Rightarrow> [] | Some s \<Rightarrow> [(''sort_order'', s)])"

definition spec_query_path :: "call_args \<Rightarrow> string" where
  "spec_query_path a =
     ''evaluation/list/function/'' @ a_function a @ concat (map segment (spec_segments a))"

subsection \<open>The listing operation\<close>

text \<open>
  The arguments of \<^verbatim>\<open>list_evaluations\<close> other than \<^verbatim>\<open>output_format\<close>, with the prefix
  \<open>f_\<close>. \<open>'p\<close> is the type of \<^verbatim>\<open>per_fold\<close>: a truth value for the caller, its
  lower-case rendering for \<^verbatim>\<open>_list_all\<close>.
\<close>

record 'p filters =
  f_function :: string
  f_offset :: "int option"
  f_size :: "int option"
  f_id :: "int list option"
  f_task :: "int list option"
  f_setup :: "int list option"
  f_flow :: "int list option"
  f_uploader :: "int list option"
  f_tag :: "string option"
  f_per_fold :: "'p option"
  f_sort_order :: "string option"

text \<open>\<^verbatim>\<open>str(per_fold).lower()\<close>.\<close>

definition per_fold_str :: "bool option \<Rightarrow> string option" where
  "per_fold_str per_fold =
     (case per_fold of None \<Rightarrow> None | Some b \<Rightarrow> Some (if b then ''true'' else ''false''))"

text \<open>
  \<^verbatim>\<open>openml.utils._list_all\<close> pages through a listing call and lives in another module. It
  is a parameter that receives the output format, the listing call and the filters, and
  threads the network state.
\<close>

type_synonym ('f, 'j) listing_call =
  "call_args \<Rightarrow> string \<Rightarrow> net \<Rightarrow> (error + ('f, 'j) listing) \<times> net"

type_synonym ('f, 'j) list_all =
  "string \<Rightarrow> ('f, 'j) listing_call \<Rightarrow> string filters \<Rightarrow> net \<Rightarrow> (error + ('f, 'j) listing) \<times> net"

definition list_evaluations :: "('f, 'j) pylib \<Rightarrow> (string \<Rightarrow> xdict) \<Rightarrow> ('f, 'j) list_all
    \<Rightarrow> bool filters \<Rightarrow> string \<Rightarrow> net \<Rightarrow> (error + ('f, 'j) listing) \<times> net" where
  "list_evaluations L srv list_all_fn f output_format st =
     (if output_format \<notin> set [''dataframe'', ''dict'', ''object'']
      then (Inl (ValueError (''Invalid output format selected. ''
                   @ ''Only 'object', 'dataframe', or 'dict' applicable.'')), st)
      else list_all_fn output_format (u_list_evaluations L srv)
             \<lparr>f_function = f_function f, f_offset = f_offset f, f_size = f_size f,
              f_id = f_id f, f_task = f_task f, f_setup = f_setup f, f_flow = f_flow f,
              f_uploader = f_uploader f, f_tag = f_tag f,
              f_per_fold = per_fold_str (f_per_fold f), f_sort_order = f_sort_order f\<rparr> st)"

subsection \<open>The measure listing\<close>

text \<open>\<^verbatim>\<open>x[0]\<close> on a parsed value.\<close>

fun index0 :: "xml \<Rightarrow> error + xml" where
  "index0 (XList []) = Inl IndexError"
| "index0 (XList (x # xs)) = Inr x"
| "index0 (XText []) = Inl IndexError"
| "index0 (XText (c # cs)) = Inr (XText [c])"
| "index0 (XDict d) = Inl (KeyError ''0'')"
| "index0 XNone = Inl TypeError"

definition parse_measures :: "xdict \<Rightarrow> error + xml list" where
  "parse_measures qualities =
     (if \<not> has_key qualities ''oml:evaluation_measures''
      then Inl (ValueError ''Error in return XML, does not contain \"oml:evaluation_measures\"'')
      else
        bnd (getitem qualities ''oml:evaluation_measures'') (\<lambda>m.
        bnd (subscript m ''oml:measures'') (\<lambda>ms.
        bnd (index0 ms) (\<lambda>m0.
        bnd (subscript m0 ''oml:measure'') (\<lambda>l.
          case l of XList xs \<Rightarrow> Inr xs | _ \<Rightarrow> Inl TypeError)))))"

definition list_evaluation_measures :: "(string \<Rightarrow> xdict) \<Rightarrow> net \<Rightarrow> (error + xml list) \<times> net" where
  "list_evaluation_measures srv st =
     (let api_call = ''evaluationmeasure/list''
      in (parse_measures (srv api_call), st\<lparr>api_calls := api_calls st @ [api_call]\<rparr>))"

subsection \<open>The setup join\<close>

text \<open>
  Modelled from the spec: the rows of the table that \<^verbatim>\<open>openml.setups.list_setups\<close>
  returns, a module that is not part of these sources. A setup record is a setup identifier
  plus a collection of (parameter name, value) pairs; the code reads the columns
  \<^verbatim>\<open>setup_id\<close>, \<^verbatim>\<open>flow_id\<close> and \<^verbatim>\<open>parameters\<close>, the last being \<^verbatim>\<open>None\<close>
  or a mapping whose values have the keys \<^verbatim>\<open>parameter_name\<close> and \<^verbatim>\<open>value\<close>.
  An answer is a table with these three columns and any number of rows. Columns of the
  setup table carry the prefix \<open>s_\<close>.
\<close>

record param =
  parameter_name :: string
  p_value :: string

record setup_row =
  s_setup_id :: int
  s_flow_id :: int
  s_parameters :: "(int \<times> param) list option"

text \<open>
  \<^verbatim>\<open>Series.unique()\<close> keeps the first occurrence of each value, in order of appearance.
\<close>

definition unique :: "'a list \<Rightarrow> 'a list" where
  "unique xs = rev (remdups (rev xs))"

text \<open>
  \<^verbatim>\<open>np.split(ary, n)\<close> with an integer \<^verbatim>\<open>n\<close> divides the array into \<^verbatim>\<open>n\<close> pieces of
  equal length and raises ValueError when the length is not a multiple of \<^verbatim>\<open>n\<close>.
\<close>

fun pieces :: "nat \<Rightarrow> nat \<Rightarrow> 'a list \<Rightarrow> 'a list list" where
  "pieces 0 k xs = []"
| "pieces (Suc n) k xs = take k xs # pieces n k (drop k xs)"

definition np_split :: "'a list \<Rightarrow> int \<Rightarrow> error + 'a list list" where
  "np_split ary sections =
     (if sections \<le> 0 then Inl (ValueError ''number sections must be larger than 0.'')
      else if int (length ary) mod sections \<noteq> 0
      then Inl (ValueError ''array split does not result in an equal division'')
      else Inr (pieces (nat sections) (length ary div nat sections) ary))"

text \<open>
  The table \<^verbatim>\<open>setups\<close> after \<^verbatim>\<open>drop('flow_id')\<close>: the setup identifier and the
  parameters column. The loop over the batches calls \<^verbatim>\<open>list_setups\<close> once per batch and
  appends the rows it returns.
\<close>

definition drop_flow_id :: "setup_row list \<Rightarrow> (int \<times> (int \<times> param) list option) list" where
  "drop_flow_id result = map (\<lambda>r. (s_setup_id r, s_parameters r)) result"

fun fetch_setups :: "(int list \<Rightarrow> setup_row list) \<Rightarrow> int list list
    \<Rightarrow> (int \<times> (int \<times> param) list option) list \<Rightarrow> net
    \<Rightarrow> (int \<times> (int \<times> param) list option) list \<times> net" where
  "fetch_setups list_setups [] setups st = (setups, st)"
| "fetch_setups list_setups (setup # setup_chunks) setups st =
     fetch_setups list_setups setup_chunks
       (setups @ drop_flow_id (list_setups setup))
       (st\<lparr>setup_fetches := setup_fetches st @ [setup]\<rparr>)"

text \<open>
  Lines 314 to 322: each parameter mapping becomes the list of its (name, value) pairs,
  \<^verbatim>\<open>None\<close> becomes the empty list.
\<close>

definition flatten :: "(int \<times> param) list option \<Rightarrow> (string \<times> string) list" where
  "flatten parameter_dict =
     (case parameter_dict of
        Some d \<Rightarrow> map (\<lambda>p. (parameter_name p, p_value p)) (map snd d)
      | None \<Rightarrow> [])"

definition flatten_all :: "(int \<times> (int \<times> param) list option) list
    \<Rightarrow> (int \<times> (string \<times> string) list) list" where
  "flatten_all setups = map (\<lambda>(sid, parameter_dict). (sid, flatten parameter_dict)) setups"

text \<open>
  \<^verbatim>\<open>pd.merge(evals, setups, on='setup_id', how='left')\<close>: every row of the left table,
  in order, once per row of the right table with the same key; a left row without a match
  is kept once and the columns of the right table are missing (NaN) there.
\<close>

datatype 'a cell = NaN | Cell 'a

record ('f, 'j) joined_row =
  left :: "('f, 'j) evaluation"
  parameters :: "(string \<times> string) list cell"

definition merge_left :: "('f, 'j) evaluation list \<Rightarrow> (int \<times> (string \<times> string) list) list
    \<Rightarrow> ('f, 'j) joined_row list" where
  "merge_left evals setups =
     concat (map (\<lambda>e.
       case filter (\<lambda>s. fst s = setup_id e) setups of
         [] \<Rightarrow> [\<lparr>left = e, parameters = NaN\<rparr>]
       | m # ms \<Rightarrow> map (\<lambda>s. \<lparr>left = e, parameters = Cell (snd s)\<rparr>) (m # ms)) evals)"

text \<open>\<^verbatim>\<open>len(evals)\<close> of either result of the listing.\<close>

fun len :: "('f, 'j) listing \<Rightarrow> nat" where
  "len (Mapping m) = length m"
| "len (Frame rows) = length rows"

text \<open>
  Lines 303 to 324. A mapping keyed by run identifier has no key \<^verbatim>\<open>'setup_id'\<close>, so
  \<^verbatim>\<open>evals['setup_id']\<close> raises KeyError on it. The number of sections is computed on
  Python integers.
\<close>

definition join_setups :: "(int list \<Rightarrow> setup_row list) \<Rightarrow> ('f, 'j) listing \<Rightarrow> net
    \<Rightarrow> (error + ('f, 'j) joined_row list) \<times> net" where
  "join_setups list_setups evals st =
     (if len evals \<noteq> 0 then
        (case evals of
           Mapping m \<Rightarrow> (Inl (KeyError ''setup_id''), st)
         | Frame rows \<Rightarrow>
             (let N = 100;
                  ids = unique (map setup_id rows)
              in case np_split ids ((int (length ids) - 1) div N + 1) of
                   Inl e \<Rightarrow> (Inl e, st)
                 | Inr setup_chunks \<Rightarrow>
                     (let (setups, st') = fetch_setups list_setups setup_chunks [] st
                      in (Inr (merge_left rows (flatten_all setups)), st'))))
      else (Inr [], st))"

text \<open>
  \<^verbatim>\<open>df.to_dict(orient='index')\<close>: a mapping from the row index, which counts from 0
  after a merge, to the row.
\<close>

datatype ('f, 'j) joined =
    Table "('f, 'j) joined_row list"
  | IndexDict "(nat \<times> ('f, 'j) joined_row) list"

definition to_dict_index :: "'r list \<Rightarrow> (nat \<times> 'r) list" where
  "to_dict_index df = zip [0..<length df] df"

definition list_evaluations_setups :: "('f, 'j) pylib \<Rightarrow> (string \<Rightarrow> xdict) \<Rightarrow> ('f, 'j) list_all
    \<Rightarrow> (int list \<Rightarrow> setup_row list) \<Rightarrow> bool filters \<Rightarrow> string \<Rightarrow> net
    \<Rightarrow> (error + ('f, 'j) joined) \<times> net" where
  "list_evaluations_setups L srv list_all_fn list_setups f output_format st =
     (case list_evaluations L srv list_all_fn f ''dataframe'' st of
        (Inl e, st1) \<Rightarrow> (Inl e, st1)
      | (Inr evals, st1) \<Rightarrow>
          (case join_setups list_setups evals st1 of
             (Inl e, st2) \<Rightarrow> (Inl e, st2)
           | (Inr df, st2) \<Rightarrow>
               (if output_format = ''dataframe'' then (Inr (Table df), st2)
                else (Inr (IndexDict (to_dict_index df)), st2))))"

subsection \<open>Measures of a record and of a document\<close>

text \<open>
  How many of the three result fields of a record are not \<^verbatim>\<open>None\<close>, and how many of the
  three tags an element carries.
\<close>

definition populated :: "('f, 'j) evaluation \<Rightarrow> nat" where
  "populated r =
     length (filter id [e_value r \<noteq> None, e_values r \<noteq> None, array_data r \<noteq> XNone])"

text \<open>
  In a table a missing number is \<^verbatim>\<open>nan\<close>: there a value is populated when it is neither
  \<^verbatim>\<open>None\<close> nor \<^verbatim>\<open>nan\<close>. \<open>populations\<close> lists the number of populated fields of
  every record of a listing, of either kind.
\<close>

definition populated_in_table :: "'f \<Rightarrow> ('f, 'j) evaluation \<Rightarrow> nat" where
  "populated_in_table nan r =
     length (filter id [e_value r \<noteq> None \<and> e_value r \<noteq> Some nan, e_values r \<noteq> None,
                        array_data r \<noteq> XNone])"

fun populations :: "'f \<Rightarrow> ('f, 'j) listing \<Rightarrow> nat list" where
  "populations nan (Mapping m) = map (\<lambda>kv. populated (fields_of (snd kv))) m"
| "populations nan (Frame rows) = map (populated_in_table nan) rows"

definition tags_present :: "xdict \<Rightarrow> nat" where
  "tags_present d = length (filter (has_key d) [''oml:value'', ''oml:values'', ''oml:array_data''])"

text \<open>The evaluation elements of a parsed document.\<close>

definition elements :: "xdict \<Rightarrow> xml list" where
  "elements evals_dict =
     (case map_of evals_dict ''oml:evaluations'' of
        Some (XDict c) \<Rightarrow> (case map_of c ''oml:evaluation'' of Some (XList es) \<Rightarrow> es | _ \<Rightarrow> [])
      | _ \<Rightarrow> [])"

subsection \<open>Concrete inputs\<close>

text \<open>
  Instances of the parameters, for evaluating the operations on concrete documents.
  \<open>read_int\<close> reads a non-empty string of decimal digits, as \<^verbatim>\<open>int\<close> does on such a
  string; the floats of \<open>lib0\<close> are the integral ones and \<^verbatim>\<open>nan\<close>, and its float
  reader reads the same strings as \<open>read_int\<close>; its JSON reader reads \<^verbatim>\<open>null\<close> and
  \<^verbatim>\<open>[]\<close>, and \<open>show_doc\<close> renders a document the way \<^verbatim>\<open>str\<close> renders an
  OrderedDict.
\<close>

datatype num = Num int | NotANumber

fun read_digits :: "nat \<Rightarrow> string \<Rightarrow> nat option" where
  "read_digits acc [] = Some acc"
| "read_digits acc (c # cs) =
     (if c \<in> set ''0123456789'' then read_digits (10 * acc + (of_char c - 48)) cs else None)"

definition read_int :: "string \<Rightarrow> error + int" where
  "read_int s =
     (case (s, read_digits 0 s) of
        (c # cs, Some n) \<Rightarrow> Inr (int n)
      | _ \<Rightarrow> Inl (ValueError ''invalid literal for int() with base 10''))"

definition read_float :: "string \<Rightarrow> error + num" where
  "read_float s =
     (case (s, read_digits 0 s) of
        (c # cs, Some n) \<Rightarrow> Inr (Num (int n))
      | _ \<Rightarrow> Inl (ValueError ''could not convert string to float''))"

definition read_json :: "string \<Rightarrow> error + int list option" where
  "read_json s =
     (if s = ''null'' then Inr None
      else if s = ''[]'' then Inr (Some [])
      else Inl (ValueError ''Expecting value''))"

fun show_xml :: "xml \<Rightarrow> string"
  and show_items :: "(string \<times> xml) list \<Rightarrow> string list"
  and show_item :: "string \<times> xml \<Rightarrow> string"
  and show_list :: "xml list \<Rightarrow> string list" where
  "show_xml XNone = ''None''"
| "show_xml (XText s) = [CHR 0x27] @ s @ [CHR 0x27]"
| "show_xml (XDict d) = ''OrderedDict(['' @ join '', '' (show_items d) @ ''])''"
| "show_xml (XList xs) = ''['' @ join '', '' (show_list xs) @ '']''"
| "show_items [] = []"
| "show_items (kv # kvs) = show_item kv # show_items kvs"
| "show_item (k, v) = ''('' @ [CHR 0x27] @ k @ [CHR 0x27] @ '', '' @ show_xml v @ '')''"
| "show_list [] = []"
| "show_list (x # xs) = show_xml x # show_list xs"

definition show_doc :: "xdict \<Rightarrow> string" where
  "show_doc d = show_xml (XDict d)"

definition lib0 :: "(num, int list) pylib" where
  "lib0 = \<lparr>py_int = read_int, py_float = read_float, json_loads = read_json, py_str = show_doc,
           py_nan = NotANumber\<rparr>"

text \<open>
  Two stand-ins for \<^verbatim>\<open>_list_all\<close>. \<open>one_page\<close> makes a single listing call with the
  filters that are given and returns its result. \<open>no_result\<close> is the helper on a server
  that has no result for the query: after the one request it returns the empty container of
  the format.
\<close>

definition page_args :: "string filters \<Rightarrow> call_args" where
  "page_args f =
     \<lparr>a_function = f_function f, a_id = f_id f, a_task = f_task f, a_setup = f_setup f,
      a_flow = f_flow f, a_uploader = f_uploader f, a_sort_order = f_sort_order f,
      a_kwargs =
        [(''limit'', case f_size f of None \<Rightarrow> KInt 10000 | Some n \<Rightarrow> KInt n),
         (''offset'', case f_offset f of None \<Rightarrow> KInt 0 | Some n \<Rightarrow> KInt n)]
        @ (case f_tag f of None \<Rightarrow> [] | Some t \<Rightarrow> [(''tag'', KStr t)])
        @ (case f_per_fold f of None \<Rightarrow> [] | Some p \<Rightarrow> [(''per_fold'', KStr p)])\<rparr>"

definition one_page :: "('f, 'j) list_all" where
  "one_page output_format listing_call f st = listing_call (page_args f) output_format st"

definition no_result :: "('f, 'j) list_all" where
  "no_result output_format listing_call f st =
     (Inr (if output_format = ''dataframe'' then Frame [] else Mapping []),
      st\<lparr>api_calls := api_calls st @ [build_api_call (page_args f)]\<rparr>)"

definition no_filters :: "string \<Rightarrow> 'p filters" where
  "no_filters metric =
     \<lparr>f_function = metric, f_offset = None, f_size = None, f_id = None, f_task = None,
      f_setup = None, f_flow = None, f_uploader = None, f_tag = None, f_per_fold = None,
      f_sort_order = None\<rparr>"

definition net0 :: net where
  "net0 = \<lparr>api_calls = [], setup_fetches = []\<rparr>"

text \<open>
  An evaluation element with the nine mandatory tags, to which further tags are appended;
  a response document around a list of elements.
\<close>

definition element :: "string \<Rightarrow> string \<Rightarrow> xdict \<Rightarrow> xml" where
  "element run setup extra =
     XDict ([(''oml:run_id'', XText run), (''oml:task_id'', XText ''59''),
             (''oml:setup_id'', XText setup), (''oml:flow_id'', XText ''65''),
             (''oml:flow_name'', XText ''weka.J48''), (''oml:data_id'', XText ''61''),
             (''oml:data_name'', XText ''iris''), (''oml:function'', XText ''precision''),
             (''oml:upload_time'', XText ''2014-04-07'')] @ extra)"

definition response :: "xml list \<Rightarrow> xdict" where
  "response es = [(''oml:evaluations'', XDict [(''oml:evaluation'', XList es)])]"

definition row0 :: "int \<Rightarrow> int \<Rightarrow> (num, int list) evaluation" where
  "row0 run setup =
     \<lparr>run_id = run, task_id = 59, setup_id = setup, flow_id = 65,
      flow_name = XText ''weka.J48'', data_id = XText ''61'', data_name = XText ''iris'',
      e_function = XText ''precision'', upload_time = XText ''2014-04-07'',
      e_value = None, e_values = None, array_data = XNone\<rparr>"

text \<open>
  A \<^verbatim>\<open>list_setups\<close> that knows the setups 1 to 150 and answers a batch with one row per
  known setup of the batch, in the order of the batch.
\<close>

definition setups0 :: "int list \<Rightarrow> setup_row list" where
  "setups0 batch =
     map (\<lambda>i. \<lparr>s_setup_id = i, s_flow_id = 65,
               s_parameters = (if i = 1 then None
                               else Some [(7, \<lparr>parameter_name = ''C'', p_value = ''0.25''\<rparr>)])\<rparr>)
       (filter (\<lambda>i. 1 \<le> i \<and> i \<le> 150) (remdups batch))"


text \<open>An evaluation table of \<open>n\<close> rows with the setup identifiers 1 to \<open>n\<close>.\<close>

definition rows_with_setups :: "nat \<Rightarrow> (num, int list) evaluation list" where
  "rows_with_setups n = map (\<lambda>i. row0 (int i) (int i)) [1..<Suc n]"

section \<open>Properties\<close>

subsection \<open>Helper lemmas\<close>

lemma bnd_Inr: "bnd m f = Inr y \<Longrightarrow> \<exists>x. m = Inr x \<and> f x = Inr y"
  by (cases m) (simp_all add: bnd_def)

lemma add_kwargs_concat:
  "add_kwargs kw s = s @ concat (map segment (map (\<lambda>(operator, v). (operator, kw_str v)) kw))"
  unfolding add_kwargs_def
  by (induction kw arbitrary: s) (auto simp: segment_def)

lemma add_ids_concat: "add_ids name ids s = s @ concat (map segment (id_segments name ids))"
  by (cases ids) (simp_all add: add_ids_def id_segments_def segment_def)

lemma add_sort_order_concat:
  "add_sort_order so s =
     s @ concat (map segment (case so of None \<Rightarrow> [] | Some x \<Rightarrow> [(''sort_order'', x)]))"
  by (cases so) (simp_all add: add_sort_order_def segment_def)

lemma build_result:
  assumes "build L d v vs ad = Inr r"
  shows "e_value r = v \<and> e_values r = vs \<and> array_data r = ad"
  using assms unfolding build_def
  by (auto dest!: bnd_Inr)

lemma opt_value_absent: "opt_value L d = Inr v \<Longrightarrow> (v \<noteq> None) = has_key d ''oml:value''"
  by (auto simp: opt_value_def dest!: bnd_Inr split: if_splits)

lemma opt_values_absent: "opt_values L d = Inr vs \<Longrightarrow> vs \<noteq> None \<Longrightarrow> has_key d ''oml:values''"
  by (auto simp: opt_values_def split: if_splits)

lemma opt_array_data_absent:
  "opt_array_data d = Inr ad \<Longrightarrow> ad \<noteq> XNone \<Longrightarrow> has_key d ''oml:array_data''"
  by (auto simp: opt_array_data_def split: if_splits)

text \<open>A decoded record has no more result fields than its element has result tags.\<close>

lemma decode_populated:
  assumes "decode L output_format e = Inr (k, x)"
  shows "\<exists>d. e = XDict d \<and> populated (fields_of x) \<le> tags_present d"
proof (cases e)
  case (XDict d)
  from assms XDict obtain v vs ad r where
    v: "opt_value L d = Inr v" and vs: "opt_values L d = Inr vs"
    and ad: "opt_array_data d = Inr ad" and r: "build L d v vs ad = Inr r"
    and x: "fields_of x = r"
    by (auto dest!: bnd_Inr split: if_splits)
  from build_result [OF r] opt_value_absent [OF v] opt_values_absent [OF vs]
    opt_array_data_absent [OF ad]
  have "populated r \<le> tags_present d"
    by (auto simp: populated_def tags_present_def)
  with x XDict show ?thesis by simp
qed (use assms in simp_all)

lemma od_set_set: "set (od_set k v kvs) \<subseteq> insert (k, v) (set kvs)"
  by (induction kvs) (auto split: if_splits)

text \<open>Every entry of the accumulated mapping was decoded from an element of the response.\<close>

lemma eval_loop_entries:
  assumes "eval_loop L output_format es acc = Inr evals" and "kx \<in> set evals"
  shows "kx \<in> set acc \<or> (\<exists>e \<in> set es. decode L output_format e = Inr kx)"
  using assms
proof (induction es arbitrary: acc)
  case Nil
  then show ?case by simp
next
  case (Cons e es)
  from Cons.prems(1) obtain k x where
    d: "decode L output_format e = Inr (k, x)"
    and l: "eval_loop L output_format es (od_set k x acc) = Inr evals"
    by (auto dest!: bnd_Inr)
  from Cons.IH [OF l Cons.prems(2)] od_set_set [of k x acc] d
  show ?case by auto
qed

text \<open>A successful parse ran the loop over the elements of the document.\<close>

lemma parse_evaluations_loop:
  assumes "parse_evaluations L output_format evals_dict = Inr res"
  shows "\<exists>evals. eval_loop L output_format (elements evals_dict) [] = Inr evals
           \<and> res = (if output_format = ''dataframe''
                    then Frame (coerce_value (py_nan L) (map fields_of (map snd evals)))
                    else Mapping evals)"
proof -
  from assms obtain c l where
    c: "map_of evals_dict ''oml:evaluations'' = Some c"
    and l: "subscript c ''oml:evaluation'' = Inr l"
    and rest: "(case l of XList es \<Rightarrow>
                  bnd (eval_loop L output_format es []) (\<lambda>evals.
                    if output_format = ''dataframe'' then from_records L (map snd evals)
                    else Inr (Mapping evals))
                | _ \<Rightarrow> Inl AssertionError) = Inr res"
    by (auto simp: parse_evaluations_def getitem_def has_key_def dest!: bnd_Inr
        split: if_splits option.splits)
  from rest obtain es where es: "l = XList es" by (cases l) simp_all
  from l obtain cd where cd: "c = XDict cd" by (cases c) simp_all
  from l cd es have "map_of cd ''oml:evaluation'' = Some (XList es)"
    by (simp add: getitem_def split: option.splits)
  with c cd have el: "elements evals_dict = es" by (simp add: elements_def)
  from rest es obtain evals where
    ev: "eval_loop L output_format es [] = Inr evals"
    and res: "(if output_format = ''dataframe'' then from_records L (map snd evals)
               else Inr (Mapping evals)) = Inr res"
    by (auto dest!: bnd_Inr)
  from res have "res = (if output_format = ''dataframe''
                        then Frame (coerce_value (py_nan L) (map fields_of (map snd evals)))
                        else Mapping evals)"
    by (auto simp: from_records_def split: if_splits list.splits)
  with ev el show ?thesis by auto
qed

text \<open>
  The type inference of the table populates no field: a row of the table has no more
  populated fields than the record it was made from.
\<close>

lemma coerce_value_populated:
  assumes "r \<in> set (coerce_value nan rows)"
  shows "\<exists>r0 \<in> set rows. populated_in_table nan r \<le> populated r0"
proof (cases "list_ex (\<lambda>r. e_value r \<noteq> None) rows")
  case False
  with assms have "r \<in> set rows" by (simp add: coerce_value_def)
  moreover have "populated_in_table nan r \<le> populated r"
    by (simp add: populated_in_table_def populated_def)
  ultimately show ?thesis by blast
next
  case True
  with assms obtain r0 where r0: "r0 \<in> set rows"
    and r: "r = (case e_value r0 of None \<Rightarrow> r0\<lparr>e_value := Some nan\<rparr> | Some v \<Rightarrow> r0)"
    by (auto simp: coerce_value_def)
  have "populated_in_table nan r \<le> populated r0"
    by (cases "e_value r0") (simp_all add: r populated_in_table_def populated_def)
  with r0 show ?thesis by blast
qed

subsection \<open>The three result fields\<close>

text \<open>
  C1 (amended). The parser fills each of value, values and array_data from its own tag and
  checks no exclusivity. A field is populated only if its tag is present, so: when every
  evaluation element of the response carries at most one of the three tags, every record
  of the result, in any output format, has at most one of the three fields populated. In a
  table the missing value of a row is \<^verbatim>\<open>None\<close> or \<^verbatim>\<open>nan\<close>, in a mapping it is
  \<^verbatim>\<open>None\<close>.
\<close>

theorem at_most_one_result_field:
  assumes "parse_evaluations L output_format evals_dict = Inr res"
    and "\<forall>d. XDict d \<in> set (elements evals_dict) \<longrightarrow> tags_present d \<le> 1"
  shows "\<forall>n \<in> set (populations (py_nan L) res). n \<le> 1"
proof
  fix n assume n: "n \<in> set (populations (py_nan L) res)"
  from parse_evaluations_loop [OF assms(1)] obtain evals where
    ev: "eval_loop L output_format (elements evals_dict) [] = Inr evals"
    and res: "res = (if output_format = ''dataframe''
                     then Frame (coerce_value (py_nan L) (map fields_of (map snd evals)))
                     else Mapping evals)"
    by blast
  have bound: "populated (fields_of (snd kx)) \<le> 1" if "kx \<in> set evals" for kx
  proof -
    from eval_loop_entries [OF ev that] obtain e where
      e: "e \<in> set (elements evals_dict)"
      and d: "decode L output_format e = Inr (fst kx, snd kx)"
      by auto
    from decode_populated [OF d] obtain dd where
      "e = XDict dd" and "populated (fields_of (snd kx)) \<le> tags_present dd"
      by blast
    with e assms(2) show ?thesis by force
  qed
  show "n \<le> 1"
  proof (cases "output_format = ''dataframe''")
    case True
    with res n obtain r where
      r: "r \<in> set (coerce_value (py_nan L) (map fields_of (map snd evals)))"
      and nr: "n = populated_in_table (py_nan L) r"
      by auto
    from coerce_value_populated [OF r] obtain r0 where
      "r0 \<in> set (map fields_of (map snd evals))"
      and "populated_in_table (py_nan L) r \<le> populated r0"
      by blast
    with bound nr show ?thesis by force
  next
    case False
    with res n obtain kx where "kx \<in> set evals" and "n = populated (fields_of (snd kx))"
      by auto
    with bound show ?thesis by simp
  qed
qed

theorem at_most_one_result_field_witness:
  "parse_evaluations lib0 ''dict'' (response [element ''12'' ''3'' [(''oml:value'', XText ''1'')]])
     = Inr (Mapping [(12, RowDict ((row0 12 3)\<lparr>e_value := Some (Num 1)\<rparr>))])
   \<and> elements (response [element ''12'' ''3'' [(''oml:value'', XText ''1'')]])
     = [element ''12'' ''3'' [(''oml:value'', XText ''1'')]]
   \<and> (case element ''12'' ''3'' [(''oml:value'', XText ''1'')] of
         XDict d \<Rightarrow> tags_present d | _ \<Rightarrow> 0) = 1
   \<and> populated ((row0 12 3)\<lparr>e_value := Some (Num 1)\<rparr>) \<le> 1"
proof -
  have h1: "parse_evaluations lib0 ''dict''
              (response [element ''12'' ''3'' [(''oml:value'', XText ''1'')]])
            = Inr (Mapping [(12, RowDict ((row0 12 3)\<lparr>e_value := Some (Num 1)\<rparr>))])"
    by (simp add: parse_evaluations_def response_def has_key_def getitem_def bnd_def
        element_def int_field_def opt_value_def opt_values_def opt_array_data_def build_def
        lib0_def read_int_def read_float_def row0_def)
  have el: "elements (response [element ''12'' ''3'' [(''oml:value'', XText ''1'')]])
            = [element ''12'' ''3'' [(''oml:value'', XText ''1'')]]"
    by (simp add: elements_def response_def)
  have tg: "(case element ''12'' ''3'' [(''oml:value'', XText ''1'')] of
               XDict d \<Rightarrow> tags_present d | _ \<Rightarrow> 0) = 1"
    by (simp add: element_def tags_present_def has_key_def)
  have h2: "\<forall>d. XDict d \<in> set (elements (response [element ''12'' ''3''
                                      [(''oml:value'', XText ''1'')]]))
              \<longrightarrow> tags_present d \<le> 1"
    by (simp add: elements_def response_def element_def tags_present_def has_key_def)
  from at_most_one_result_field [OF h1 h2]
  have "populated ((row0 12 3)\<lparr>e_value := Some (Num 1)\<rparr>
                   :: (num, int list) evaluation) \<le> 1"
    by simp
  with h1 el tg show ?thesis by blast
qed

text \<open>
  C1 as stated fails: an element with a scalar value and array data (as the server sends
  for class-wise measures) gives a record with two of the three fields populated.
\<close>

theorem two_result_fields_counterexample:
  "parse_evaluations lib0 ''dict''
     (response [element ''12'' ''3''
        [(''oml:value'', XText ''1''), (''oml:array_data'', XText ''[1,0]'')]])
     = Inr (Mapping [(12, RowDict ((row0 12 3)\<lparr>e_value := Some (Num 1),
                                                array_data := XText ''[1,0]''\<rparr>))])
   \<and> populated ((row0 12 3)\<lparr>e_value := Some (Num 1), array_data := XText ''[1,0]''\<rparr>) = 2"
  by (simp add: parse_evaluations_def response_def has_key_def getitem_def bnd_def
      element_def int_field_def opt_value_def opt_values_def opt_array_data_def build_def
      lib0_def read_int_def read_float_def row0_def populated_def)

subsection \<open>Output format validation\<close>

text \<open>
  C4 (amended). The plain listing raises a ValueError for an output format outside
  'dataframe', 'dict', 'object' and leaves the network state untouched, whatever the
  pagination helper is. The setup join does not validate its output format: it lists the
  evaluations with the format 'dataframe' and treats every format other than 'dataframe'
  as 'dict'.
\<close>

theorem invalid_format_plain_listing:
  "output_format \<notin> set [''dataframe'', ''dict'', ''object'']
   \<Longrightarrow> (\<exists>msg. list_evaluations L srv list_all_fn f output_format st = (Inl (ValueError msg), st))
       \<and> list_evaluations_setups L srv list_all_fn list_setups f output_format st
         = list_evaluations_setups L srv list_all_fn list_setups f ''dict'' st"
  by (auto simp: list_evaluations_def list_evaluations_setups_def split: prod.splits sum.splits)

theorem invalid_format_plain_listing_witness:
  "''xml'' \<notin> set [''dataframe'', ''dict'', ''object'']
   \<and> (\<exists>msg. list_evaluations lib0 (\<lambda>p. response [element ''12'' ''3'' []]) one_page
               (no_filters ''precision'') ''xml'' net0 = (Inl (ValueError msg), net0))"
  using invalid_format_plain_listing [of "''xml''" lib0 "\<lambda>p. response [element ''12'' ''3'' []]"
      one_page "no_filters ''precision''" net0]
  by simp

text \<open>
  C4 as stated fails for the setup join: with the format 'xml' it fetches the evaluations
  and the setups and returns the mapping representation.
\<close>

theorem setup_join_unvalidated_format:
  "list_evaluations_setups lib0 (\<lambda>p. response [element ''12'' ''3'' []]) one_page setups0
     (no_filters ''precision'') ''xml'' net0
   = (Inr (IndexDict [(0, \<lparr>left = row0 12 3, parameters = Cell [(''C'', ''0.25'')]\<rparr>)]),
      \<lparr>api_calls = [''evaluation/list/function/precision/limit/10000/offset/0''],
       setup_fetches = [[3]]\<rparr>)"
  by (simp add: list_evaluations_setups_def list_evaluations_def one_page_def page_args_def
      no_filters_def u_list_evaluations_def uu_list_evaluations_def build_api_call_def
      add_kwargs_def add_ids_def add_sort_order_def per_fold_str_def str_int_def str_nat.simps
      net0_def parse_evaluations_def response_def has_key_def getitem_def bnd_def element_def
      int_field_def opt_value_def opt_values_def opt_array_data_def build_def lib0_def
      read_int_def read_float_def from_records_def coerce_value_def join_setups_def unique_def np_split_def setups0_def
      drop_flow_id_def flatten_all_def flatten_def merge_left_def to_dict_index_def row0_def)

subsection \<open>The empty listing\<close>

text \<open>
  C5. When the evaluations listed for the setup join are empty, the operation returns the
  empty table, or the empty mapping for any other output format, and the network state is
  the one left by the evaluation listing: no setup is fetched and no further request made.
\<close>

theorem empty_listing_no_setup_fetch:
  assumes "list_evaluations L srv list_all_fn f ''dataframe'' st = (Inr evals, st1)"
    and "len evals = 0"
  shows "list_evaluations_setups L srv list_all_fn list_setups f output_format st
         = (Inr (if output_format = ''dataframe'' then Table [] else IndexDict []), st1)"
  using assms by (simp add: list_evaluations_setups_def join_setups_def to_dict_index_def)

theorem empty_listing_no_setup_fetch_witness:
  "list_evaluations lib0 (\<lambda>p. response []) no_result (no_filters ''precision'') ''dataframe'' net0
     = (Inr (Frame []), \<lparr>api_calls = [''evaluation/list/function/precision/limit/10000/offset/0''],
                         setup_fetches = []\<rparr>)
   \<and> len (Frame [] :: (num, int list) listing) = 0
   \<and> list_evaluations_setups lib0 (\<lambda>p. response []) no_result setups0 (no_filters ''precision'')
        ''dict'' net0
     = (Inr (IndexDict []), \<lparr>api_calls = [''evaluation/list/function/precision/limit/10000/offset/0''],
                             setup_fetches = []\<rparr>)"
proof -
  have h: "list_evaluations lib0 (\<lambda>p. response []) no_result (no_filters ''precision'')
             ''dataframe'' net0
           = (Inr (Frame []),
              \<lparr>api_calls = [''evaluation/list/function/precision/limit/10000/offset/0''],
               setup_fetches = []\<rparr>)"
    by (simp add: list_evaluations_def no_result_def no_filters_def page_args_def net0_def
        per_fold_str_def build_api_call_def add_kwargs_def add_ids_def add_sort_order_def
        str_int_def str_nat.simps)
  have l: "len (Frame [] :: (num, int list) listing) = 0" by simp
  from empty_listing_no_setup_fetch [OF h l, of setups0 "''dict''"] h l show ?thesis by simp
qed

subsection \<open>The missing collection tag\<close>

text \<open>
  C6 (amended). When the parsed response lacks the top-level collection tag, both parsers
  raise a ValueError, which \<^verbatim>\<open>_list_evaluations\<close> passes on to its caller. The message
  of the evaluation-list parser ends with the rendering of the parsed document; the message
  of the measure-list parser is a fixed text.
\<close>

theorem missing_collection_tag:
  "(\<not> has_key (srv (build_api_call a)) ''oml:evaluations'' \<longrightarrow>
      fst (u_list_evaluations L srv a output_format st)
      = Inl (ValueError (''Error in return XML, does not contain \"oml:evaluations\": ''
                          @ py_str L (srv (build_api_call a)))))
   \<and> (\<not> has_key (srv ''evaluationmeasure/list'') ''oml:evaluation_measures'' \<longrightarrow>
      fst (list_evaluation_measures srv st)
      = Inl (ValueError ''Error in return XML, does not contain \"oml:evaluation_measures\"''))"
  by (simp add: u_list_evaluations_def uu_list_evaluations_def parse_evaluations_def
      list_evaluation_measures_def parse_measures_def)

theorem missing_collection_tag_witness:
  "\<not> has_key [(''oml:error'', XText ''boom'')] ''oml:evaluations''
   \<and> fst (u_list_evaluations lib0 (\<lambda>p. [(''oml:error'', XText ''boom'')])
            (page_args (no_filters ''precision'')) ''dict'' net0)
     = Inl (ValueError (''Error in return XML, does not contain \"oml:evaluations\": ''
                         @ ''OrderedDict([('oml:error', 'boom')])''))
   \<and> \<not> has_key [(''oml:error'', XText ''boom'')] ''oml:evaluation_measures''
   \<and> fst (list_evaluation_measures (\<lambda>p. [(''oml:error'', XText ''boom'')]) net0)
     = Inl (ValueError ''Error in return XML, does not contain \"oml:evaluation_measures\"'')"
  using missing_collection_tag [of "\<lambda>p. [(''oml:error'', XText ''boom'')]"
      "page_args (no_filters ''precision'')" lib0 "''dict''" net0]
  by (simp add: has_key_def lib0_def show_doc_def)

text \<open>
  C6 as stated fails for the measure-list parser: its message does not contain the
  rendering of the parsed document.
\<close>

theorem measure_message_fixed:
  "fst (list_evaluation_measures (\<lambda>p. [(''oml:error'', XText ''boom'')]) net0)
     = Inl (ValueError ''Error in return XML, does not contain \"oml:evaluation_measures\"'')
   \<and> show_doc [(''oml:error'', XText ''boom'')] = ''OrderedDict([('oml:error', 'boom')])''
   \<and> \<not> sublist (show_doc [(''oml:error'', XText ''boom'')])
          ''Error in return XML, does not contain \"oml:evaluation_measures\"''"
  by (simp add: list_evaluation_measures_def parse_measures_def has_key_def show_doc_def
      sublist_code)

subsection \<open>The query path\<close>

text \<open>
  C7. For all arguments the path built by \<^verbatim>\<open>_list_evaluations\<close> is the path of the
  specification: \<^verbatim>\<open>evaluation/list/function/<metric>\<close> followed by one segment
  \<^verbatim>\<open>/<filter-name>/<values>\<close> per given filter, the keyword filters first, then run,
  task, setup, flow, uploader and sort_order, each identifier list as comma-joined
  integers; and that path is the one requested.
\<close>

theorem query_path_shape:
  "build_api_call a = spec_query_path a
   \<and> u_list_evaluations L srv a output_format st
       = uu_list_evaluations L srv (spec_query_path a) output_format st"
  by (simp add: u_list_evaluations_def build_api_call_def spec_query_path_def spec_segments_def
      Let_def add_kwargs_concat add_ids_concat add_sort_order_concat)

theorem query_path_shape_witness:
  "build_api_call
     \<lparr>a_function = ''predictive_accuracy'', a_id = Some [1, 20, 305], a_task = None,
      a_setup = Some [], a_flow = Some [- 7], a_uploader = None, a_sort_order = Some ''asc'',
      a_kwargs = [(''limit'', KInt 10), (''offset'', KInt 0), (''tag'', KStr ''x'')]\<rparr>
   = ''evaluation/list/function/predictive_accuracy/limit/10/offset/0/tag/x/run/1,20,305/setup//flow/-7/sort_order/asc''"
  using query_path_shape [of
     "\<lparr>a_function = ''predictive_accuracy'', a_id = Some [1, 20, 305], a_task = None,
       a_setup = Some [], a_flow = Some [- 7], a_uploader = None, a_sort_order = Some ''asc'',
       a_kwargs = [(''limit'', KInt 10), (''offset'', KInt 0), (''tag'', KStr ''x'')]\<rparr>"
     lib0 "\<lambda>p. response []" "''dict''" net0]
  by (simp add: spec_query_path_def spec_segments_def id_segments_def segment_def
      str_int_def str_nat.simps)

subsection \<open>The table needs a record\<close>

lemma built_items_lookup: "built_items d \<Longrightarrow> map_of d k = Some v \<Longrightarrow> built v"
  by (induction d) (auto split: if_splits)

lemma od_set_nonempty: "od_set k v kvs \<noteq> []"
  by (cases kvs) (auto split: if_splits)

lemma eval_loop_nonempty:
  assumes "eval_loop L output_format es acc = Inr evals" and "es \<noteq> [] \<or> acc \<noteq> []"
  shows "evals \<noteq> []"
  using assms
proof (induction es arbitrary: acc)
  case Nil
  then show ?case by simp
next
  case (Cons e es)
  from Cons.prems(1) obtain k x where
    "eval_loop L output_format es (od_set k x acc) = Inr evals"
    by (auto dest!: bnd_Inr)
  from Cons.IH [OF this] od_set_nonempty [of k x acc] show ?case by simp
qed

text \<open>
  C10 (amended). The table conversion reads the first row unconditionally and raises
  IndexError on no rows, but no document that xmltodict has built reaches it without a
  row. A response without evaluation elements fails before the loop, in every output
  format: with TypeError when the collection element has no content, with KeyError when
  it has content but no evaluation element. A list of evaluation elements is never empty,
  so when the loop ends without error at least one record is accumulated and the format
  'dataframe' returns the table.
\<close>

theorem parsed_document_has_a_row:
  assumes "built_items evals_dict"
    and "map_of evals_dict ''oml:evaluations'' = Some c"
  shows "from_records L [] = Inl IndexError
         \<and> parse_evaluations L output_format evals_dict
           = (case c of
                XDict cd \<Rightarrow>
                  (case map_of cd ''oml:evaluation'' of
                     None \<Rightarrow> Inl (KeyError ''oml:evaluation'')
                   | Some (XList es) \<Rightarrow>
                       bnd (eval_loop L output_format es []) (\<lambda>evals.
                         if output_format = ''dataframe''
                         then Inr (Frame (coerce_value (py_nan L) (map fields_of (map snd evals))))
                         else Inr (Mapping evals))
                   | Some _ \<Rightarrow> Inl AssertionError)
              | _ \<Rightarrow> Inl TypeError)"
proof
  show "from_records L [] = Inl IndexError" by (simp add: from_records_def)
next
  from assms have bc: "built c" by (rule built_items_lookup)
  have hk: "has_key evals_dict ''oml:evaluations''"
    and gi: "getitem evals_dict ''oml:evaluations'' = Inr c"
    using assms(2) by (simp_all add: has_key_def getitem_def)
  show "parse_evaluations L output_format evals_dict
        = (case c of
             XDict cd \<Rightarrow>
               (case map_of cd ''oml:evaluation'' of
                  None \<Rightarrow> Inl (KeyError ''oml:evaluation'')
                | Some (XList es) \<Rightarrow>
                    bnd (eval_loop L output_format es []) (\<lambda>evals.
                      if output_format = ''dataframe''
                      then Inr (Frame (coerce_value (py_nan L) (map fields_of (map snd evals))))
                      else Inr (Mapping evals))
                | Some _ \<Rightarrow> Inl AssertionError)
           | _ \<Rightarrow> Inl TypeError)"
  proof (cases c)
    case (XDict cd)
    show ?thesis
    proof (cases "map_of cd ''oml:evaluation''")
      case None
      with XDict hk gi show ?thesis
        by (simp add: parse_evaluations_def bnd_def getitem_def)
    next
      case (Some l)
      from bc XDict Some have bl: "built l" by (simp add: built_items_lookup)
      show ?thesis
      proof (cases l)
        case (XList es)
        with bl have ne: "es \<noteq> []" by simp
        have "bnd (eval_loop L output_format es []) (\<lambda>evals.
                if output_format = ''dataframe'' then from_records L (map snd evals)
                else Inr (Mapping evals))
              = bnd (eval_loop L output_format es []) (\<lambda>evals.
                  if output_format = ''dataframe''
                  then Inr (Frame (coerce_value (py_nan L) (map fields_of (map snd evals))))
                  else Inr (Mapping evals))"
        proof (cases "eval_loop L output_format es []")
          case (Inl e)
          then show ?thesis by (simp add: bnd_def)
        next
          case (Inr evals)
          from eval_loop_nonempty [OF Inr] ne have "evals \<noteq> []" by simp
          then have "from_records L (map snd evals)
                     = Inr (Frame (coerce_value (py_nan L) (map fields_of (map snd evals))))"
            by (cases evals) (simp_all add: from_records_def)
          with Inr show ?thesis by (simp add: bnd_def)
        qed
        with XDict Some XList hk gi show ?thesis
          by (simp add: parse_evaluations_def bnd_def getitem_def)
      qed (use XDict Some hk gi in \<open>simp_all add: parse_evaluations_def bnd_def getitem_def\<close>)
    qed
  qed (use hk gi in \<open>simp_all add: parse_evaluations_def bnd_def\<close>)
qed

theorem parsed_document_has_a_row_witness:
  "built_items (response [element ''12'' ''3'' [(''oml:value'', XText ''1'')],
                          element ''13'' ''4'' []])
   \<and> map_of (response [element ''12'' ''3'' [(''oml:value'', XText ''1'')],
                        element ''13'' ''4'' []]) ''oml:evaluations''
     = Some (XDict [(''oml:evaluation'',
                     XList [element ''12'' ''3'' [(''oml:value'', XText ''1'')],
                            element ''13'' ''4'' []])])
   \<and> parse_evaluations lib0 ''dataframe''
       (response [element ''12'' ''3'' [(''oml:value'', XText ''1'')], element ''13'' ''4'' []])
     = Inr (Frame [(row0 12 3)\<lparr>e_value := Some (Num 1)\<rparr>,
                   (row0 13 4)\<lparr>e_value := Some NotANumber\<rparr>])"
proof -
  have h1: "built_items (response [element ''12'' ''3'' [(''oml:value'', XText ''1'')],
                                   element ''13'' ''4'' []])"
    by (simp add: response_def element_def)
  have h2: "map_of (response [element ''12'' ''3'' [(''oml:value'', XText ''1'')],
                              element ''13'' ''4'' []]) ''oml:evaluations''
            = Some (XDict [(''oml:evaluation'',
                            XList [element ''12'' ''3'' [(''oml:value'', XText ''1'')],
                                   element ''13'' ''4'' []])])"
    by (simp add: response_def)
  from parsed_document_has_a_row [OF h1 h2, of lib0 "''dataframe''"] h1 h2
  show ?thesis
    by (simp add: has_key_def getitem_def bnd_def element_def int_field_def opt_value_def
        opt_values_def opt_array_data_def build_def lib0_def read_int_def read_float_def
        coerce_value_def row0_def)
qed

text \<open>
  C10 as stated fails: a response without evaluation records, read with the format
  'dataframe', raises TypeError when the collection element is empty and KeyError when it
  holds only its namespace attribute; neither is an IndexError and no row is read.
\<close>

theorem zero_records_fail_before_the_table:
  "built_items [(''oml:evaluations'', XNone)]
   \<and> built_items [(''oml:evaluations'',
                     XDict [(''@xmlns:oml'', XText ''http://openml.org/openml'')])]
   \<and> elements [(''oml:evaluations'', XNone)] = []
   \<and> parse_evaluations lib0 ''dataframe'' [(''oml:evaluations'', XNone)] = Inl TypeError
   \<and> elements [(''oml:evaluations'',
                 XDict [(''@xmlns:oml'', XText ''http://openml.org/openml'')])] = []
   \<and> parse_evaluations lib0 ''dataframe''
       [(''oml:evaluations'', XDict [(''@xmlns:oml'', XText ''http://openml.org/openml'')])]
     = Inl (KeyError ''oml:evaluation'')"
  by (simp add: elements_def parse_evaluations_def has_key_def getitem_def bnd_def)

subsection \<open>The ordered mapping of records\<close>










subsection \<open>The left join\<close>

lemma fetch_setups_eq:
  "fetch_setups ls cs acc st
   = (acc @ concat (map (\<lambda>c. drop_flow_id (ls c)) cs),
      st\<lparr>setup_fetches := setup_fetches st @ cs\<rparr>)"
  by (induction cs arbitrary: acc st) simp_all

lemma pieces_concat: "n * k = length xs \<Longrightarrow> concat (pieces n k xs) = xs"
proof (induction n arbitrary: xs)
  case 0
  then show ?case by simp
next
  case (Suc n)
  from Suc.prems have "n * k = length (drop k xs)" by simp
  from Suc.IH [OF this] show ?case by simp
qed

lemma pieces_length: "c \<in> set (pieces n k xs) \<Longrightarrow> length c \<le> k"
  by (induction n arbitrary: xs) auto

lemma np_split_concat: "np_split ary sections = Inr chunks \<Longrightarrow> concat chunks = ary"
proof -
  assume a: "np_split ary sections = Inr chunks"
  then have pos: "0 < sections" and dv: "int (length ary) mod sections = 0"
    and ch: "chunks = pieces (nat sections) (length ary div nat sections) ary"
    by (auto simp: np_split_def split: if_splits)
  from pos dv have "int (length ary) mod int (nat sections) = 0" by simp
  then have "length ary mod nat sections = 0"
    by (metis of_nat_mod of_nat_eq_0_iff)
  then have "nat sections * (length ary div nat sections) = length ary"
    by auto
  from pieces_concat [OF this] ch show ?thesis by simp
qed

lemma distinct_unique: "distinct (unique xs)"
  by (simp add: unique_def)

lemma unique_distinct: "distinct xs \<Longrightarrow> unique xs = xs"
  by (simp add: unique_def distinct_remdups_id)

lemma distinct_answers:
  assumes "distinct (concat chunks)"
    and "\<forall>c. distinct (g c) \<and> set (g c) \<subseteq> set c"
  shows "distinct (concat (map g chunks))"
  using assms(1)
proof (induction chunks)
  case Nil
  then show ?case by simp
next
  case (Cons c cs)
  from assms(2) have sub: "\<And>d. set (g d) \<subseteq> set d" and dis: "\<And>d. distinct (g d)" by auto
  have "set (concat (map g cs)) \<subseteq> set (concat cs)" using sub by auto
  with Cons sub [of c] dis [of c] show ?case by auto
qed

lemma filter_key_distinct:
  "distinct (map fst setups)
   \<Longrightarrow> filter (\<lambda>s. fst s = k) setups
       = (case map_of setups k of None \<Rightarrow> [] | Some v \<Rightarrow> [(k, v)])"
proof (induction setups)
  case Nil
  then show ?case by simp
next
  case (Cons s setups)
  obtain k' v' where s: "s = (k', v')" by (cases s)
  show ?case
  proof (cases "k' = k")
    case True
    with Cons.prems s have "k \<notin> fst ` set setups" by auto
    then have "filter (\<lambda>s. fst s = k) setups = []" by (auto simp: filter_empty_conv)
    with True s show ?thesis by simp
  next
    case False
    with Cons s show ?thesis by simp
  qed
qed

lemma merge_left_distinct:
  assumes "distinct (map fst setups)"
  shows "merge_left evals setups
         = map (\<lambda>e. \<lparr>left = e, parameters = (case map_of setups (setup_id e) of
                                               None \<Rightarrow> NaN | Some ps \<Rightarrow> Cell ps)\<rparr>) evals"
proof -
  have h: "\<And>e. (case filter (\<lambda>s. fst s = setup_id e) setups of
               [] \<Rightarrow> [\<lparr>left = e, parameters = NaN\<rparr>]
             | m # ms \<Rightarrow> map (\<lambda>s. \<lparr>left = e, parameters = Cell (snd s)\<rparr>) (m # ms))
           = [\<lparr>left = e, parameters = (case map_of setups (setup_id e) of
                                        None \<Rightarrow> NaN | Some ps \<Rightarrow> Cell ps)\<rparr>]"
    by (simp add: filter_key_distinct [OF assms] split: option.splits)
  have c: "\<And>F :: ('a, 'b) evaluation \<Rightarrow> ('a, 'b) joined_row.
            concat (map (\<lambda>e. [F e]) evals) = map F evals"
    by (induction evals) simp_all
  show ?thesis
    unfolding merge_left_def by (simp only: h c)
qed

lemma join_setups_rows:
  assumes "join_setups list_setups (Frame rows) st = (Inr df, st')"
    and "\<forall>c. distinct (map s_setup_id (list_setups c)) \<and> set (map s_setup_id (list_setups c)) \<subseteq> set c"
  shows "\<exists>chunks setups.
           setup_fetches st' = setup_fetches st @ chunks
         \<and> setups = concat (map (\<lambda>c. map (\<lambda>s. (s_setup_id s, flatten (s_parameters s)))
                                        (list_setups c)) chunks)
         \<and> length df = length rows
         \<and> map left df = rows
         \<and> (\<forall>i < length rows.
              parameters (df ! i) = (case map_of setups (setup_id (rows ! i)) of
                                       None \<Rightarrow> NaN | Some ps \<Rightarrow> Cell ps))"
proof (cases "rows = []")
  case True
  with assms(1) show ?thesis by (simp add: join_setups_def)
next
  case False
  define ids where "ids = unique (map setup_id rows)"
  from False assms(1) have js:
    "(case np_split ids ((int (length ids) - 1) div 100 + 1) of
        Inl e \<Rightarrow> (Inl e, st)
      | Inr chunks \<Rightarrow>
          (let (setups, st'') = fetch_setups list_setups chunks [] st
           in (Inr (merge_left rows (flatten_all setups)), st''))) = (Inr df, st')"
    by (simp add: join_setups_def ids_def Let_def)
  then obtain chunks where
    sp: "np_split ids ((int (length ids) - 1) div 100 + 1) = Inr chunks"
    by (cases "np_split ids ((int (length ids) - 1) div 100 + 1)") simp_all
  with js have res:
    "(let (setups, st'') = fetch_setups list_setups chunks [] st
      in (Inr (merge_left rows (flatten_all setups)) :: error + _, st'')) = (Inr df, st')"
    by simp
  define setups where
    "setups = concat (map (\<lambda>c. map (\<lambda>s. (s_setup_id s, flatten (s_parameters s)))
                                  (list_setups c)) chunks)"
  have fl: "flatten_all (concat (map (\<lambda>c. drop_flow_id (list_setups c)) chunks)) = setups"
    by (simp add: flatten_all_def drop_flow_id_def setups_def map_concat o_def)
  from res have df: "df = merge_left rows setups"
    and st': "st' = st\<lparr>setup_fetches := setup_fetches st @ chunks\<rparr>"
    by (simp_all add: fetch_setups_eq fl)
  have "distinct (concat chunks)"
    using np_split_concat [OF sp] by (simp add: ids_def distinct_unique)
  from distinct_answers [OF this assms(2)]
  have "distinct (concat (map (\<lambda>c. map s_setup_id (list_setups c)) chunks))" .
  moreover have "map fst setups = concat (map (\<lambda>c. map s_setup_id (list_setups c)) chunks)"
    by (simp add: setups_def map_concat o_def)
  ultimately have "distinct (map fst setups)" by simp
  from merge_left_distinct [OF this, of rows] df
  have ml: "df = map (\<lambda>e. \<lparr>left = e, parameters = (case map_of setups (setup_id e) of
                                       None \<Rightarrow> NaN | Some ps \<Rightarrow> Cell ps)\<rparr>) rows"
    by simp
  have "length df = length rows" and "map left df = rows"
    and "\<forall>i < length rows.
           parameters (df ! i) = (case map_of setups (setup_id (rows ! i)) of
                                    None \<Rightarrow> NaN | Some ps \<Rightarrow> Cell ps)"
    by (simp_all add: ml o_def)
  with st' setups_def show ?thesis by simp
qed


text \<open>
  C3 (amended). When \<^verbatim>\<open>list_setups\<close> answers each batch with at most one row per setup
  and only setups of the batch, the join that returns has exactly the evaluation rows, in
  order, one joined row each. Where no fetched setup has the setup identifier of the row,
  the parameters cell is missing (NaN), not an empty list; where one has, the cell holds
  its flattened parameters, the empty list for a setup whose parameter mapping is
  \<^verbatim>\<open>None\<close>.
\<close>

theorem left_join_rows:
  assumes "list_evaluations L srv list_all_fn f ''dataframe'' st0 = (Inr (Frame rows), st)"
    and "join_setups list_setups (Frame rows) st = (Inr df, st')"
    and "\<forall>c. distinct (map s_setup_id (list_setups c)) \<and> set (map s_setup_id (list_setups c)) \<subseteq> set c"
  shows "list_evaluations_setups L srv list_all_fn list_setups f ''dataframe'' st0
           = (Inr (Table df), st')
         \<and> (\<exists>chunks setups.
               setup_fetches st' = setup_fetches st @ chunks
             \<and> setups = concat (map (\<lambda>c. map (\<lambda>s. (s_setup_id s, flatten (s_parameters s)))
                                            (list_setups c)) chunks)
             \<and> length df = length rows
             \<and> map left df = rows
             \<and> (\<forall>i < length rows.
                  parameters (df ! i) = (case map_of setups (setup_id (rows ! i)) of
                                           None \<Rightarrow> NaN | Some ps \<Rightarrow> Cell ps)))"
  using join_setups_rows [OF assms(2,3)] assms(1,2)
  by (simp add: list_evaluations_setups_def)


theorem left_join_rows_witness:
  "list_evaluations lib0
     (\<lambda>p. response [element ''12'' ''3'' [], element ''13'' ''200'' [], element ''14'' ''1'' []])
     one_page (no_filters ''precision'') ''dataframe'' net0
     = (Inr (Frame [row0 12 3, row0 13 200, row0 14 1]),
        \<lparr>api_calls = [''evaluation/list/function/precision/limit/10000/offset/0''],
         setup_fetches = []\<rparr>)
   \<and> (\<forall>c. distinct (map s_setup_id (setups0 c)) \<and> set (map s_setup_id (setups0 c)) \<subseteq> set c)
   \<and> list_evaluations_setups lib0
       (\<lambda>p. response [element ''12'' ''3'' [], element ''13'' ''200'' [], element ''14'' ''1'' []])
       one_page setups0 (no_filters ''precision'') ''dataframe'' net0
     = (Inr (Table [\<lparr>left = row0 12 3, parameters = Cell [(''C'', ''0.25'')]\<rparr>,
                    \<lparr>left = row0 13 200, parameters = NaN\<rparr>,
                    \<lparr>left = row0 14 1, parameters = Cell []\<rparr>]),
        \<lparr>api_calls = [''evaluation/list/function/precision/limit/10000/offset/0''],
         setup_fetches = [[3, 200, 1]]\<rparr>)"
proof -
  have h1: "list_evaluations lib0
     (\<lambda>p. response [element ''12'' ''3'' [], element ''13'' ''200'' [], element ''14'' ''1'' []])
     one_page (no_filters ''precision'') ''dataframe'' net0
     = (Inr (Frame [row0 12 3, row0 13 200, row0 14 1]),
        \<lparr>api_calls = [''evaluation/list/function/precision/limit/10000/offset/0''],
         setup_fetches = []\<rparr>)"
    by (simp add: list_evaluations_def one_page_def page_args_def
      no_filters_def u_list_evaluations_def uu_list_evaluations_def build_api_call_def
      add_kwargs_def add_ids_def add_sort_order_def per_fold_str_def str_int_def str_nat.simps
      net0_def parse_evaluations_def response_def has_key_def getitem_def bnd_def element_def
      int_field_def opt_value_def opt_values_def opt_array_data_def build_def lib0_def
      read_int_def read_float_def from_records_def coerce_value_def row0_def)
  have h2: "join_setups setups0 (Frame [row0 12 3, row0 13 200, row0 14 1 :: (num, int list) evaluation])
              \<lparr>api_calls = [''evaluation/list/function/precision/limit/10000/offset/0''],
               setup_fetches = []\<rparr>
            = (Inr [\<lparr>left = row0 12 3, parameters = Cell [(''C'', ''0.25'')]\<rparr>,
                    \<lparr>left = row0 13 200, parameters = NaN\<rparr>,
                    \<lparr>left = row0 14 1, parameters = Cell []\<rparr>],
               \<lparr>api_calls = [''evaluation/list/function/precision/limit/10000/offset/0''],
                setup_fetches = [[3, 200, 1]]\<rparr>)"
    by (simp add: join_setups_def unique_def np_split_def setups0_def
      drop_flow_id_def flatten_all_def flatten_def merge_left_def row0_def)
  have h3: "\<forall>c. distinct (map s_setup_id (setups0 c)) \<and> set (map s_setup_id (setups0 c)) \<subseteq> set c"
    by (auto simp: setups0_def o_def)
  from left_join_rows [OF h1 h2 h3] h1 h3 show ?thesis by blast
qed

text \<open>
  C3 as stated fails: the evaluation with setup 200, for which no setup record is fetched,
  has a missing parameters cell in the joined table, which is not the empty list.
\<close>

theorem unmatched_setup_is_missing:
  "list_evaluations_setups lib0
     (\<lambda>p. response [element ''12'' ''3'' [], element ''13'' ''200'' []])
     one_page setups0 (no_filters ''precision'') ''dataframe'' net0
   = (Inr (Table [\<lparr>left = row0 12 3, parameters = Cell [(''C'', ''0.25'')]\<rparr>,
                  \<lparr>left = row0 13 200, parameters = NaN\<rparr>]),
      \<lparr>api_calls = [''evaluation/list/function/precision/limit/10000/offset/0''],
       setup_fetches = [[3, 200]]\<rparr>)
   \<and> setups0 [3, 200] = [\<lparr>s_setup_id = 3, s_flow_id = 65,
                           s_parameters = Some [(7, \<lparr>parameter_name = ''C'', p_value = ''0.25''\<rparr>)]\<rparr>]
   \<and> (NaN :: (string \<times> string) list cell) \<noteq> Cell []"
  by (simp add: list_evaluations_setups_def list_evaluations_def one_page_def page_args_def
      no_filters_def u_list_evaluations_def uu_list_evaluations_def build_api_call_def
      add_kwargs_def add_ids_def add_sort_order_def per_fold_str_def str_int_def str_nat.simps
      net0_def parse_evaluations_def response_def has_key_def getitem_def bnd_def element_def
      int_field_def opt_value_def opt_values_def opt_array_data_def build_def lib0_def
      read_int_def read_float_def from_records_def coerce_value_def join_setups_def unique_def np_split_def setups0_def
      drop_flow_id_def flatten_all_def flatten_def merge_left_def to_dict_index_def row0_def)

subsection \<open>The batches\<close>

lemma rows_with_setups_ids: "map setup_id (rows_with_setups n) = map int [1..<Suc n]"
  by (simp add: rows_with_setups_def row0_def o_def)

lemma join_setups_split_error:
  assumes "rows \<noteq> []"
    and "unique (map setup_id rows) = ids"
    and "np_split ids ((int (length ids) - 1) div 100 + 1) = Inl e"
  shows "join_setups list_setups (Frame rows) st = (Inl e, st)"
  using assms by (simp add: join_setups_def Let_def)

text \<open>
  When \<^verbatim>\<open>np.split\<close> returns, the batches are the identifiers in order and none is
  longer than 100.
\<close>

lemma split_batches_bounded:
  assumes "np_split ids ((int (length ids) - 1) div 100 + 1) = Inr chunks"
  shows "concat chunks = ids \<and> (\<forall>c \<in> set chunks. length c \<le> 100)"
proof -
  define n where "n = nat ((int (length ids) - 1) div 100 + 1)"
  from assms have pos: "0 < (int (length ids) - 1) div 100 + 1"
    and ch: "chunks = pieces n (length ids div n) ids"
    by (auto simp: np_split_def n_def split: if_splits)
  have "int (length ids) \<le> 100 * ((int (length ids) - 1) div 100 + 1)"
    by presburger
  with pos have "int (length ids) \<le> 100 * int n"
    unfolding n_def by simp
  then have "length ids \<le> 100 * n" by linarith
  moreover from pos have "0 < n" by (simp add: n_def)
  ultimately have "length ids div n \<le> 100"
    by (metis div_le_mono nonzero_mult_div_cancel_right less_numeral_extra(3) mult.commute)
  with ch pieces_length [of _ n "length ids div n" ids]
  have "\<forall>c \<in> set chunks. length c \<le> 100" by fastforce
  with np_split_concat [OF assms] show ?thesis by simp
qed

text \<open>
  C2. With 101 distinct setup identifiers the number of sections is 2, which does not
  divide 101: \<^verbatim>\<open>np.split\<close> raises ValueError, no batch is made and no setup is fetched,
  whatever \<^verbatim>\<open>list_setups\<close> would answer; the setup join raises the same error when the
  evaluation listing returns such a table.
\<close>

theorem np_split_rejects_101_setups:
  "join_setups list_setups (Frame (rows_with_setups 101)) st
   = (Inl (ValueError ''array split does not result in an equal division''), st)
   \<and> list_evaluations_setups L srv (\<lambda>fmt call f st. (Inr (Frame (rows_with_setups 101)), st))
       list_setups f output_format st
     = (Inl (ValueError ''array split does not result in an equal division''), st)"
proof -
  have j: "join_setups list_setups (Frame (rows_with_setups 101)) st
   = (Inl (ValueError ''array split does not result in an equal division''), st)"
  proof (rule join_setups_split_error)
    show "rows_with_setups 101 \<noteq> []"
      by (simp add: rows_with_setups_def)
    have "distinct (map int [1..<Suc 101])"
      by (simp add: distinct_map inj_on_def)
    then show "unique (map setup_id (rows_with_setups 101)) = map int [1..<Suc 101]"
      by (simp only: rows_with_setups_ids unique_distinct)
    show "np_split (map int [1..<Suc 101]) ((int (length (map int [1..<Suc 101])) - 1) div 100 + 1)
          = Inl (ValueError ''array split does not result in an equal division'')"
      by (simp add: np_split_def)
  qed
  then show ?thesis
    by (simp add: list_evaluations_setups_def list_evaluations_def)
qed


subsection \<open>Table and mapping representation\<close>











end
